theory Spec2Isabelle
  imports Main
begin

section \<open>Python values used by \<^verbatim>\<open>wsgenerator.py\<close>\<close>

text \<open>
  Python integers are unbounded and are embedded as \<^typ>\<open>int\<close>; Python strings are
  embedded as \<^typ>\<open>string\<close>.  Every exception the generator can raise is a value of
  \<open>error\<close>, and a function that can raise returns \<open>error + 'a\<close>.
\<close>

datatype error = IndexError | ValueError | TypeError

abbreviation bs :: char where
  "bs \<equiv> CHR 0x5C"

abbreviation nl :: char where
  "nl \<equiv> CHR 0x0A"

subsection \<open>\<^verbatim>\<open>str\<close> on integers and \<^verbatim>\<open>sep.join\<close>\<close>

definition digit_char :: "nat \<Rightarrow> char" where
  "digit_char d = ''0123456789'' ! d"

fun digits :: "nat \<Rightarrow> string" where
  "digits n = (if n < 10 then [digit_char n] else digits (n div 10) @ [digit_char (n mod 10)])"

declare digits.simps [simp del]

definition str :: "int \<Rightarrow> string" where
  "str n = (if n < 0 then CHR ''-'' # digits (nat (- n)) else digits (nat n))"

fun join :: "string \<Rightarrow> string list \<Rightarrow> string" where
  "join sep [] = []"
| "join sep [x] = x"
| "join sep (x # y # ys) = x @ sep @ join sep (y # ys)"

subsection \<open>The random source\<close>

text \<open>
  The module-wide generator of \<^verbatim>\<open>random\<close> is made an explicit argument: an infinite
  sequence of raw draws, of which every call consumes the first.  \<^verbatim>\<open>random.randint(a, b)\<close>
  maps the raw draw \<open>r\<close> to \<open>a + r mod (b - a + 1)\<close>, so its outcomes are exactly the
  integers of \<open>[a, b]\<close>, and raises \<^verbatim>\<open>ValueError\<close> on an empty range.
  \<^verbatim>\<open>random.choice(seq)\<close> indexes \<open>seq\<close> at \<open>r mod len(seq)\<close> and raises
  \<^verbatim>\<open>IndexError\<close> on an empty sequence.
\<close>

type_synonym rng = "nat \<Rightarrow> nat"

type_synonym 'a gen = "rng \<Rightarrow> error + ('a \<times> rng)"

definition advance :: "rng \<Rightarrow> rng" where
  "advance g = (\<lambda>i. g (Suc i))"

definition return :: "'a \<Rightarrow> 'a gen" where
  "return x g = Inr (x, g)"

definition bind :: "'a gen \<Rightarrow> ('a \<Rightarrow> 'b gen) \<Rightarrow> 'b gen" where
  "bind m f g = (case m g of Inl e \<Rightarrow> Inl e | Inr (x, g') \<Rightarrow> f x g')"

definition lift :: "error + 'a \<Rightarrow> 'a gen" where
  "lift r g = (case r of Inl e \<Rightarrow> Inl e | Inr x \<Rightarrow> Inr (x, g))"

definition randint :: "int \<Rightarrow> int \<Rightarrow> int gen" where
  "randint a b g =
     (if b < a then Inl ValueError
      else Inr (a + int (g 0 mod nat (b - a + 1)), advance g))"

definition choice :: "'a list \<Rightarrow> 'a gen" where
  "choice seq g =
     (if seq = [] then Inl IndexError
      else Inr (seq ! (g 0 mod length seq), advance g))"

text \<open>
  \<open>draws xs\<close> is the random source whose raw draws are the elements of \<open>xs\<close>,
  followed by zeros.
\<close>

primrec draws :: "nat list \<Rightarrow> rng" where
  "draws [] i = 0"
| "draws (x # xs) i = (case i of 0 \<Rightarrow> x | Suc j \<Rightarrow> draws xs j)"

section \<open>The functions of \<^verbatim>\<open>wsgenerator.py\<close>\<close>

subsection \<open>\<^verbatim>\<open>find_factors\<close>\<close>

text \<open>
  \<^verbatim>\<open>int(n ** 0.5)\<close> is the truncated double-precision square root of \<open>n\<close>.  It is
  embedded as the exact integer square root \<open>sqrt_floor\<close>, the greatest \<open>r\<close> with
  \<open>r * r \<le> n\<close>, which is what the double computation yields as long as \<open>n\<close> and its
  root are held exactly by a double.  For a negative \<open>n\<close> the power is a complex number
  and \<^verbatim>\<open>int\<close> raises \<^verbatim>\<open>TypeError\<close>.

  \<^verbatim>\<open>reduce(list.__add__, it)\<close> is called without an initial value: it raises
  \<^verbatim>\<open>TypeError\<close> on an empty iterable and otherwise adds the lists from the left.
  \<^verbatim>\<open>list(set(xs))\<close> keeps one copy of every element; the order of the copies is that
  of the hash table, for which \<open>remdups\<close> stands in (no theorem below depends on it).
\<close>

primrec sqrt_floor_from :: "nat \<Rightarrow> nat \<Rightarrow> nat" where
  "sqrt_floor_from n 0 = 0"
| "sqrt_floor_from n (Suc r) = (if Suc r * Suc r \<le> n then Suc r else sqrt_floor_from n r)"

definition sqrt_floor :: "nat \<Rightarrow> nat" where
  "sqrt_floor n = sqrt_floor_from n n"

definition reduce_add :: "'a list list \<Rightarrow> error + 'a list" where
  "reduce_add xss = (case xss of [] \<Rightarrow> Inl TypeError | xs # rest \<Rightarrow> Inr (foldl (@) xs rest))"

definition find_factors :: "int \<Rightarrow> error + int list" where
  "find_factors n =
     (if n < 0 then Inl TypeError
      else case reduce_add (map (\<lambda>i. [i, n div i])
                  (filter (\<lambda>i. n mod i = 0) [1 .. int (sqrt_floor (nat n))])) of
             Inl e \<Rightarrow> Inl e
           | Inr fs \<Rightarrow> Inr (remdups fs))"

subsection \<open>\<^verbatim>\<open>num_to_latex\<close>\<close>

definition num_to_latex :: "int \<Rightarrow> int \<Rightarrow> string" where
  "num_to_latex num_digits num =
     (let num_string = str num;
          padding = replicate (nat (num_digits - int (length num_string))) (CHR ''x'');
          num_string = padding @ num_string
      in join [bs, CHR '','']
           (map (\<lambda>digit. if digit \<noteq> CHR ''x'' then [digit] else bs # ''phantom{0}'')
              num_string))"

subsection \<open>\<^verbatim>\<open>operation_to_latex\<close>\<close>

definition operation_to_latex :: "string \<Rightarrow> string" where
  "operation_to_latex operation =
     (if operation \<in> {''add'', ''addition'', ''plus''} then ''+''
      else if operation \<in> {''sub'', ''subtract'', ''subtraction'', ''minus''} then ''-''
      else if operation \<in> {''multiply'', ''multiplication'', ''times'', ''x''} then bs # ''times''
      else if operation \<in> {''div'', ''divide'', ''division'', [bs]} then bs # ''div''
      else operation)"

subsection \<open>\<^verbatim>\<open>create_problem_latex\<close>\<close>

definition create_problem_latex :: "int \<Rightarrow> string \<Rightarrow> int \<Rightarrow> int \<Rightarrow> string" where
  "create_problem_latex num_digits operation num1 num2 =
     (let num1_latex = num_to_latex num_digits num1;
          num2_latex = num_to_latex num_digits num2;
          operation = operation_to_latex operation
      in bs # ''begin{myequation}'' @ [nl] @
         ''    '' @ bs # ''begin{array}{r}'' @ [nl] @
         ''        '' @ num1_latex @ '' '' @ [bs, bs, nl] @
         ''        '' @ operation @ bs # ''phantom{0}'' @ num2_latex @ '' '' @ [bs, bs, nl] @
         ''        '' @ bs # ''hline'' @ [bs, bs, nl] @
         ''        '' @ bs # ''hline'' @ [nl] @
         ''    '' @ bs # ''end{array}'' @ [nl] @
         bs # ''end{myequation}'')"

subsection \<open>\<^verbatim>\<open>create_random_problem_latex\<close>\<close>

text \<open>
  \<open>random_problem\<close> is the body of \<^verbatim>\<open>create_random_problem_latex\<close> up to its
  \<^verbatim>\<open>return\<close> statement; it yields the values that the local variables
  \<^verbatim>\<open>operation\<close>, \<^verbatim>\<open>num1\<close> and \<^verbatim>\<open>num2\<close> hold there.  The argument
  \<^verbatim>\<open>limit_multiplication\<close> is passed along as in the source, whose body never reads it.
  The three \<^verbatim>\<open>if\<close> statements of the body are \<open>limited_operands\<close> (the guard
  \<^verbatim>\<open>operation == '-' and operation == '\\times'\<close>), \<open>swapped_operands\<close> and
  \<open>divide_operands\<close>, in the order of the source.

  \<^verbatim>\<open>10 ** num_digits\<close> is an integer for \<open>num_digits \<ge> 0\<close>.  For a negative
  \<open>num_digits\<close> it is a float strictly between 0 and 1, and \<^verbatim>\<open>random.randint\<close> rejects
  the non-integer bound (\<^verbatim>\<open>ValueError\<close>; \<^verbatim>\<open>TypeError\<close> from Python 3.12 on).
\<close>

definition limited_operands :: "string \<Rightarrow> int \<Rightarrow> int \<Rightarrow> (int \<times> int) gen" where
  "limited_operands operation num1 num2 =
     (if operation = ''-'' \<and> operation = bs # ''times'' then
        bind (randint 0 12) (\<lambda>num1.
        bind (randint 0 12) (\<lambda>num2.
        return (num1, num2)))
      else return (num1, num2))"

definition swapped_operands :: "string \<Rightarrow> int \<Rightarrow> int \<Rightarrow> int \<times> int" where
  "swapped_operands operation num1 num2 =
     (if operation = ''-'' then (if num1 < num2 then (num2, num1) else (num1, num2))
      else (num1, num2))"

definition divide_operands :: "string \<Rightarrow> int \<Rightarrow> int \<Rightarrow> int \<Rightarrow> (int \<times> int) gen" where
  "divide_operands operation max_num num1 num2 =
     (if operation = bs # ''div'' then
        bind (randint 0 max_num) (\<lambda>quotient.
        bind (lift (find_factors quotient)) (\<lambda>factors.
        bind (choice factors) (\<lambda>divisor.
        return (quotient, divisor))))
      else return (num1, num2))"

definition random_problem :: "int \<Rightarrow> string list \<Rightarrow> bool \<Rightarrow> (string \<times> int \<times> int) gen" where
  "random_problem num_digits included_operations limit_multiplication =
     bind (choice included_operations) (\<lambda>tok.
       let operation = operation_to_latex tok in
       if num_digits < 0 then lift (Inl ValueError)
       else
         let max_num = 10 ^ nat num_digits - 1 in
         bind (randint 0 max_num) (\<lambda>num1.
         bind (randint 0 max_num) (\<lambda>num2.
         bind (limited_operands operation num1 num2) (\<lambda>(num1, num2).
         let (num1, num2) = swapped_operands operation num1 num2 in
         bind (divide_operands operation max_num num1 num2) (\<lambda>(num1, num2).
         return (operation, num1, num2))))))"

definition create_random_problem_latex :: "int \<Rightarrow> string list \<Rightarrow> bool \<Rightarrow> string gen" where
  "create_random_problem_latex num_digits included_operations limit_multiplication =
     bind (random_problem num_digits included_operations limit_multiplication)
       (\<lambda>(operation, num1, num2).
          return (create_problem_latex num_digits operation num1 num2))"

subsection \<open>\<^verbatim>\<open>create_worksheet_latex\<close>\<close>

text \<open>
  The two \<^verbatim>\<open>for\<close> loops are recursions on the number of iterations still to run, with
  the text built so far as accumulator.  \<^verbatim>\<open>worksheet_latex[:-2]\<close> drops the last two
  characters.  The counter \<^verbatim>\<open>count\<close> of the source is only ever incremented and is
  left out.
\<close>

primrec problems_loop :: "nat \<Rightarrow> int \<Rightarrow> string list \<Rightarrow> bool \<Rightarrow> string \<Rightarrow> string gen" where
  "problems_loop 0 num_digits included_operations limit_multiplication worksheet_latex =
     return worksheet_latex"
| "problems_loop (Suc j) num_digits included_operations limit_multiplication worksheet_latex =
     bind (create_random_problem_latex num_digits included_operations limit_multiplication)
       (\<lambda>problem_latex.
          problems_loop j num_digits included_operations limit_multiplication
            (worksheet_latex @ problem_latex @ [CHR ''&'', nl]))"

primrec rows_loop :: "nat \<Rightarrow> nat \<Rightarrow> int \<Rightarrow> string list \<Rightarrow> bool \<Rightarrow> string \<Rightarrow> string gen" where
  "rows_loop 0 problems_per_row num_digits included_operations limit_multiplication
     worksheet_latex = return worksheet_latex"
| "rows_loop (Suc i) problems_per_row num_digits included_operations limit_multiplication
     worksheet_latex =
     bind (problems_loop problems_per_row num_digits included_operations limit_multiplication
             worksheet_latex)
       (\<lambda>worksheet_latex.
          rows_loop i problems_per_row num_digits included_operations limit_multiplication
            (take (length worksheet_latex - 2) worksheet_latex @ [bs, bs, CHR '' '', nl]))"

definition create_worksheet_latex :: "int \<Rightarrow> string list \<Rightarrow> bool \<Rightarrow> string gen" where
  "create_worksheet_latex num_digits included_operations limit_multiplication =
     (let problems_per_row = 4; num_rows = 5; worksheet_latex = []
      in rows_loop num_rows problems_per_row num_digits included_operations
           limit_multiplication worksheet_latex)"

section \<open>The worksheet grid in the words of the specification\<close>

text \<open>
  The specification describes the worksheet as 20 problems, generated one after the other,
  in 5 rows of 4: the blocks of a row joined by the column separator \<^verbatim>\<open>&\<close> and a
  newline, with no separator after the last block, and every row closed by the row break
  (two backslashes, a space and a newline).  \<open>spec_row_latex\<close> and
  \<open>spec_grid_latex\<close> are that layout; \<open>spec_problem_row\<close> and
  \<open>spec_problem_grid\<close> run the problem generator for the blocks of one row and of all
  rows and collect the blocks.
\<close>

definition spec_row_latex :: "string list \<Rightarrow> string" where
  "spec_row_latex blocks = join [CHR ''&'', nl] blocks @ [bs, bs, CHR '' '', nl]"




section \<open>The operation resolver\<close>

lemma operation_to_latex_canonical:
  "operation_to_latex ''+'' = ''+''"
  "operation_to_latex ''-'' = ''-''"
  "operation_to_latex (bs # ''times'') = bs # ''times''"
  "operation_to_latex (bs # ''div'') = bs # ''div''"
  by (simp_all add: operation_to_latex_def)

lemma operation_to_latex_cases:
  "operation_to_latex x = ''+'' \<or> operation_to_latex x = ''-'' \<or>
   operation_to_latex x = bs # ''times'' \<or> operation_to_latex x = bs # ''div'' \<or>
   (operation_to_latex x = x \<and>
    x \<notin> {''add'', ''addition'', ''plus'', ''sub'', ''subtract'', ''subtraction'', ''minus'',
          ''multiply'', ''multiplication'', ''times'', ''x'', ''div'', ''divide'', ''division'',
          [bs]})"
  unfolding operation_to_latex_def by simp

text \<open>
  Claim C8.  The operation resolver is idempotent: resolving a resolved token changes
  nothing.  A token that is none of the aliases of the table is returned as it is, and so
  are the four canonical symbols \<^verbatim>\<open>+\<close>, \<^verbatim>\<open>-\<close>, \<^verbatim>\<open>\times\<close> and \<^verbatim>\<open>\div\<close>.
\<close>

theorem operation_to_latex_idempotent:
  "operation_to_latex (operation_to_latex x) = operation_to_latex x \<and>
   (x \<notin> {''add'', ''addition'', ''plus'', ''sub'', ''subtract'', ''subtraction'', ''minus'',
          ''multiply'', ''multiplication'', ''times'', ''x'', ''div'', ''divide'', ''division'',
          [bs]} \<longrightarrow> operation_to_latex x = x) \<and>
   operation_to_latex ''+'' = ''+'' \<and> operation_to_latex ''-'' = ''-'' \<and>
   operation_to_latex (bs # ''times'') = bs # ''times'' \<and>
   operation_to_latex (bs # ''div'') = bs # ''div''"
proof -
  have idem: "operation_to_latex (operation_to_latex x) = operation_to_latex x"
    using operation_to_latex_cases [of x] operation_to_latex_canonical by metis
  have pass: "x \<notin> {''add'', ''addition'', ''plus'', ''sub'', ''subtract'', ''subtraction'', ''minus'',
          ''multiply'', ''multiplication'', ''times'', ''x'', ''div'', ''divide'', ''division'',
          [bs]} \<longrightarrow> operation_to_latex x = x"
    unfolding operation_to_latex_def by simp
  from idem pass operation_to_latex_canonical show ?thesis by blast
qed

theorem operation_to_latex_idempotent_witness:
  "operation_to_latex (operation_to_latex ''modulo'') = operation_to_latex ''modulo'' \<and>
   operation_to_latex ''modulo'' = ''modulo'' \<and>
   operation_to_latex (operation_to_latex ''times'') = bs # ''times''"
  using operation_to_latex_idempotent [of "''modulo''"] operation_to_latex_idempotent [of "''times''"]
  by (simp add: operation_to_latex_def)

section \<open>The operand formatter\<close>



lemma digit_char_code: "d < 10 \<Longrightarrow> (of_char (digit_char d) :: nat) = 48 + d"
proof -
  assume "d < 10"
  then have "d \<in> {0,1,2,3,4,5,6,7,8,9}" by auto
  then show ?thesis unfolding digit_char_def by auto
qed

lemma digits_decimal_value:
  "foldl (\<lambda>a c. 10 * a + (of_char c - 48)) 0 (digits n) = n"
proof (induction n rule: digits.induct)
  case (1 n)
  show ?case
  proof (cases "n < 10")
    case True
    then show ?thesis by (subst digits.simps) (simp add: digit_char_code)
  next
    case False
    have "n mod 10 < 10" by simp
    then have "(of_char (digit_char (n mod 10)) :: nat) = 48 + n mod 10" by (rule digit_char_code)
    with False 1 show ?thesis by (subst digits.simps) simp
  qed
qed

lemma str_examples:
  "str 0 = ''0''" "str 7 = ''7''" "str 42 = ''42''" "str 1203 = ''1203''" "str (- 5) = ''-5''"
  by (simp_all add: str_def digits.simps digit_char_def)









section \<open>The factorizer\<close>

lemma sqrt_floor_from_sq: "sqrt_floor_from n r * sqrt_floor_from n r \<le> n"
  by (induction r) simp_all



lemma sqrt_floor_sq: "sqrt_floor n * sqrt_floor n \<le> n"
  unfolding sqrt_floor_def by (rule sqrt_floor_from_sq)




lemma reduce_add_empty: "reduce_add [] = Inl TypeError"
  by (simp add: reduce_add_def)







lemma find_factors_0: "find_factors 0 = Inl TypeError"
  by (simp add: find_factors_def sqrt_floor_def reduce_add_def)



section \<open>The problem generator\<close>

lemma advance_draws [simp]: "advance (draws (x # xs)) = draws xs" "advance (draws []) = draws []"
  by (simp_all add: advance_def fun_eq_iff)

lemma draws_0 [simp]: "draws (x # xs) 0 = x" "draws [] i = 0"
  by simp_all

lemma randint_range:
  assumes "a \<le> b"
  shows "\<exists>v. randint a b g = Inr (v, advance g) \<and> a \<le> v \<and> v \<le> b"
proof -
  have "0 < nat (b - a + 1)" using assms by simp
  then have "g 0 mod nat (b - a + 1) < nat (b - a + 1)" by (rule mod_less_divisor)
  then have "a + int (g 0 mod nat (b - a + 1)) \<le> b" by linarith
  then show ?thesis using assms by (simp add: randint_def)
qed

lemma randint_onto:
  assumes "a \<le> v" and "v \<le> b"
  shows "randint a b (draws [nat (v - a)]) = Inr (v, draws [])"
  using assms by (simp add: randint_def)


lemma limited_operands_dead:
  "limited_operands operation num1 num2 = return (num1, num2)"
  by (auto simp: limited_operands_def)

lemma random_problem_unfold:
  assumes "0 \<le> num_digits" and "choice ops g = Inr (tok, g1)"
    and "randint 0 (10 ^ nat num_digits - 1) g1 = Inr (a, g2)"
    and "randint 0 (10 ^ nat num_digits - 1) g2 = Inr (b, g3)"
  shows "random_problem num_digits ops lim g =
           (case swapped_operands (operation_to_latex tok) a b of (num1, num2) \<Rightarrow>
              bind (divide_operands (operation_to_latex tok) (10 ^ nat num_digits - 1) num1 num2)
                (\<lambda>(num1, num2). return (operation_to_latex tok, num1, num2)) g3)"
  using assms
  by (simp add: random_problem_def bind_def Let_def limited_operands_dead return_def
        split: prod.splits)

lemma create_random_problem_latex_text:
  assumes "random_problem num_digits ops lim g = Inr ((operation, num1, num2), g')"
  shows "create_random_problem_latex num_digits ops lim g =
           Inr (create_problem_latex num_digits operation num1 num2, g')"
  using assms by (simp add: create_random_problem_latex_def bind_def return_def)

text \<open>
  Claim C4.  For every \<open>num_digits \<ge> 1\<close>, when the chosen operation is Subtract, the
  generator returns operands with \<open>num1 \<ge> num2\<close> whatever the random source: two
  values are drawn from \<open>[0, 10^num_digits - 1]\<close> and swapped when the first is smaller
  than the second; the draws (3, 7) yield \<open>num1 = 7\<close> and \<open>num2 = 3\<close>.
\<close>

theorem subtract_operands_ordered:
  assumes "1 \<le> num_digits" and "choice included_operations g = Inr (tok, g1)"
    and "operation_to_latex tok = ''-''"
  shows "\<exists>a b g2 g3 num1 num2.
           randint 0 (10 ^ nat num_digits - 1) g1 = Inr (a, g2) \<and>
           randint 0 (10 ^ nat num_digits - 1) g2 = Inr (b, g3) \<and>
           0 \<le> a \<and> a \<le> 10 ^ nat num_digits - 1 \<and> 0 \<le> b \<and> b \<le> 10 ^ nat num_digits - 1 \<and>
           random_problem num_digits included_operations limit_multiplication g =
             Inr ((''-'', num1, num2), g3) \<and>
           create_random_problem_latex num_digits included_operations limit_multiplication g =
             Inr (create_problem_latex num_digits ''-'' num1 num2, g3) \<and>
           (num1, num2) = (if a < b then (b, a) else (a, b)) \<and> num2 \<le> num1"
proof -
  let ?m = "(10::int) ^ nat num_digits - 1"
  have m: "0 \<le> ?m" by simp
  obtain a where a: "randint 0 ?m g1 = Inr (a, advance g1)" "0 \<le> a" "a \<le> ?m"
    using randint_range [OF m] by blast
  obtain b where b: "randint 0 ?m (advance g1) = Inr (b, advance (advance g1))" "0 \<le> b" "b \<le> ?m"
    using randint_range [OF m] by blast
  have n: "0 \<le> num_digits" using assms(1) by simp
  have r: "random_problem num_digits included_operations limit_multiplication g =
          Inr ((''-'', if a < b then b else a, if a < b then a else b), advance (advance g1))"
    unfolding random_problem_unfold [OF n assms(2) a(1) b(1)] assms(3)
    by (simp add: swapped_operands_def divide_operands_def bind_def return_def)
  note t = create_random_problem_latex_text [OF r]
  from a b r t show ?thesis by auto
qed

theorem subtract_operands_ordered_witness:
  "(1::int) \<le> 2 \<and> choice [''-''] (draws [0, 3, 7]) = Inr (''-'', draws [3, 7]) \<and>
   operation_to_latex ''-'' = ''-'' \<and>
   random_problem 2 [''-''] True (draws [0, 3, 7]) = Inr ((''-'', 7, 3), draws [])"
  using subtract_operands_ordered [of 2 "[''-'']" "draws [0, 3, 7]" "''-''" "draws [3, 7]" True]
  by (simp add: choice_def randint_def operation_to_latex_def)



text \<open>
  Claim C9.  \<open>find_factors 0\<close> is an error, not a list of divisors.  The quotient 0
  is an outcome of the quotient draw for every \<open>num_digits \<ge> 1\<close>, and on it the
  generation of a divide problem raises that error instead of returning equation text.
\<close>

theorem find_factors_zero_raises:
  "find_factors 0 = Inl TypeError \<and>
   (1 \<le> num_digits \<longrightarrow> randint 0 (10 ^ nat num_digits - 1) (draws [0]) = Inr (0, draws [])) \<and>
   (1 \<le> num_digits \<and> choice included_operations g = Inr (tok, g1) \<and>
    operation_to_latex tok = bs # ''div'' \<and>
    randint 0 (10 ^ nat num_digits - 1) g1 = Inr (a, g2) \<and>
    randint 0 (10 ^ nat num_digits - 1) g2 = Inr (b, g3) \<and>
    randint 0 (10 ^ nat num_digits - 1) g3 = Inr (0, g4) \<longrightarrow>
    random_problem num_digits included_operations limit_multiplication g = Inl TypeError \<and>
    create_random_problem_latex num_digits included_operations limit_multiplication g =
      Inl TypeError)"
proof (intro conjI impI)
  show "find_factors 0 = Inl TypeError" by (rule find_factors_0)
next
  assume "1 \<le> num_digits"
  show "randint 0 (10 ^ nat num_digits - 1) (draws [0]) = Inr (0, draws [])"
    by (simp add: randint_def not_less)
next
  assume h: "1 \<le> num_digits \<and> choice included_operations g = Inr (tok, g1) \<and>
    operation_to_latex tok = bs # ''div'' \<and>
    randint 0 (10 ^ nat num_digits - 1) g1 = Inr (a, g2) \<and>
    randint 0 (10 ^ nat num_digits - 1) g2 = Inr (b, g3) \<and>
    randint 0 (10 ^ nat num_digits - 1) g3 = Inr (0, g4)"
  then have n: "0 \<le> num_digits" by simp
  from h have c: "choice included_operations g = Inr (tok, g1)"
    and a: "randint 0 (10 ^ nat num_digits - 1) g1 = Inr (a, g2)"
    and b: "randint 0 (10 ^ nat num_digits - 1) g2 = Inr (b, g3)"
    and q: "randint 0 (10 ^ nat num_digits - 1) g3 = Inr (0, g4)"
    and t: "operation_to_latex tok = bs # ''div''" by simp_all
  show r: "random_problem num_digits included_operations limit_multiplication g = Inl TypeError"
    unfolding random_problem_unfold [OF n c a b] t using q
    by (simp add: swapped_operands_def divide_operands_def bind_def lift_def find_factors_0)
  show "create_random_problem_latex num_digits included_operations limit_multiplication g =
      Inl TypeError"
    unfolding create_random_problem_latex_def by (simp add: bind_def r)
qed

theorem find_factors_zero_raises_witness:
  "(1::int) \<le> 1 \<and> choice [''div''] (draws []) = Inr (''div'', draws []) \<and>
   operation_to_latex ''div'' = bs # ''div'' \<and>
   randint 0 (10 ^ nat 1 - 1) (draws []) = Inr (0, draws []) \<and>
   create_random_problem_latex 1 [''div''] True (draws []) = Inl TypeError"
  using find_factors_zero_raises [of 1 "[''div'']" "draws []" "''div''" "draws []" 0 "draws []"
      0 "draws []" "draws []" True]
  by (simp add: choice_def randint_def operation_to_latex_def)

text \<open>
  Claim C1.  With \<open>limit_multiplication\<close> true and the operation Multiply, both operands
  are to lie in \<open>[0, 12]\<close>.  The generator does not limit them: for
  \<open>num_digits = 2\<close>, the operation token \<^verbatim>\<open>x\<close> and the draws (99, 99) it returns
  the operands 99 and 99.
\<close>

theorem multiply_operands_not_limited:
  "random_problem 2 [''x''] True (draws [0, 99, 99]) = Inr ((bs # ''times'', 99, 99), draws []) \<and>
   create_random_problem_latex 2 [''x''] True (draws [0, 99, 99]) =
     Inr (create_problem_latex 2 (bs # ''times'') 99 99, draws [])"
proof -
  have c: "choice [''x''] (draws [0, 99, 99]) = Inr (''x'', draws [99, 99])"
    by (simp add: choice_def)
  have a: "randint 0 (10 ^ nat 2 - 1) (draws [99, 99]) = Inr (99, draws [99])"
    by (simp add: randint_def)
  have b: "randint 0 (10 ^ nat 2 - 1) (draws [99]) = Inr (99, draws [])"
    by (simp add: randint_def)
  have t: "operation_to_latex ''x'' = bs # ''times''" by (simp add: operation_to_latex_def)
  have n: "(0::int) \<le> 2" by simp
  have r: "random_problem 2 [''x''] True (draws [0, 99, 99]) =
      Inr ((bs # ''times'', 99, 99), draws [])"
    unfolding random_problem_unfold [OF n c a b] t
    by (simp add: swapped_operands_def divide_operands_def bind_def return_def)
  from r create_random_problem_latex_text [OF r] show ?thesis by simp
qed

lemma random_problem_flag:
  "random_problem nd ops lim = random_problem nd ops (\<not> lim)"
  by (simp add: random_problem_def)

lemma create_random_problem_latex_flag:
  "create_random_problem_latex nd ops lim = create_random_problem_latex nd ops (\<not> lim)"
  unfolding create_random_problem_latex_def by (subst random_problem_flag) simp

lemma problems_loop_flag:
  "problems_loop k nd ops lim ws = problems_loop k nd ops (\<not> lim) ws"
proof (induction k arbitrary: ws)
  case 0
  show ?case by simp
next
  case (Suc k)
  show ?case
    unfolding problems_loop.simps
    by (subst create_random_problem_latex_flag, subst Suc.IH) simp
qed

lemma rows_loop_flag:
  "rows_loop i per nd ops lim ws = rows_loop i per nd ops (\<not> lim) ws"
proof (induction i arbitrary: ws)
  case 0
  show ?case by simp
next
  case (Suc i)
  show ?case
    unfolding rows_loop.simps
    by (subst problems_loop_flag, subst Suc.IH) simp
qed

text \<open>
  Claim C2.  The argument \<open>limit_multiplication\<close> has no effect: for every
  \<open>num_digits\<close>, list of operations and random source,
  \<open>create_random_problem_latex\<close> and \<open>create_worksheet_latex\<close> give the same result for
  \<open>True\<close> and for \<open>False\<close>; the branch guarded by
  \<^verbatim>\<open>operation == '-' and operation == '\\times'\<close> is never taken, whatever the operation.
\<close>

theorem limit_multiplication_ignored:
  "create_random_problem_latex num_digits included_operations True g =
     create_random_problem_latex num_digits included_operations False g \<and>
   create_worksheet_latex num_digits included_operations True g =
     create_worksheet_latex num_digits included_operations False g \<and>
   limited_operands operation num1 num2 g = Inr ((num1, num2), g)"
proof (intro conjI)
  show "create_random_problem_latex num_digits included_operations True g =
     create_random_problem_latex num_digits included_operations False g"
    using create_random_problem_latex_flag [of num_digits included_operations True] by simp
  show "create_worksheet_latex num_digits included_operations True g =
     create_worksheet_latex num_digits included_operations False g"
    unfolding create_worksheet_latex_def Let_def
    using rows_loop_flag [of 5 4 num_digits included_operations True "[]"] by simp
  show "limited_operands operation num1 num2 g = Inr ((num1, num2), g)"
    by (simp add: limited_operands_dead return_def)
qed

section \<open>The worksheet assembler\<close>











lemma spec_row_latex_example:
  "spec_row_latex [''a'', ''b'', ''c'', ''d''] =
     ''a&'' @ [nl] @ ''b&'' @ [nl] @ ''c&'' @ [nl] @ ''d'' @ [bs, bs, CHR '' '', nl]"
  by (simp add: spec_row_latex_def)




end
